theory Spec2Isabelle
  imports
    Complex_Main
    "HOL-Library.Sublist"
    "HOL-Library.AList"
    "HOL-Library.Product_Lexorder"
    "HOL-Library.List_Lexorder"
    "HOL-Library.Char_ord"
begin

section \<open>The Olist dashboard pipeline (app.py)\<close>

text \<open>
  The script loads one table with pandas, prepares it (lines 40-60), restricts it to a
  year chosen in the sidebar (lines 67-73) and computes the derived tables that the
  charts draw (lines 91-182). The model follows the script statement by statement. The
  pandas operations the script calls are written out as list functions; file loading,
  caching and drawing are not modelled.

  Numbers are exact (\<open>real\<close>). Where a property depends on how pandas rounds a sum
  of 64-bit floating point numbers, the rounded sum is written out beside the exact one
  (\<open>float_sum\<close>). Timestamps are exact to the second.

  A column holds cells of the kind the data set gives it: numbers in \<open>price\<close>,
  \<open>review_score\<close> and \<open>delivery_time_days\<close>, strings in
  \<open>product_category_name\<close>, timestamps in a datetime column. The reductions of the
  views read a cell of another kind as missing; the comparison of line 56 is modelled
  with the \<open>TypeError\<close> that pandas raises on a string.
\<close>

subsection \<open>Tables\<close>

text \<open>
  A pandas Timestamp, by calendar fields. \<open>ts_second\<close> is the second of the day.
\<close>

datatype timestamp = Timestamp (ts_year: int) (ts_month: nat) (ts_day: nat) (ts_second: nat)

text \<open>A monthly period (\<open>to_period('M')\<close>): year and month, ordered chronologically.\<close>

type_synonym period = "int \<times> nat"

text \<open>
  One cell of a table. \<open>NA\<close> stands for every missing marker of pandas (NaN, NaT, None).
\<close>

datatype cell = NA | Num real | Str string | Ts timestamp | Per period

datatype dtype = Object | Float64 | Datetime64 | PeriodM

text \<open>
  A DataFrame: the column names in order, each with its dtype, and the rows. A row lists
  its cells by column name; a name it does not list reads as missing, which no step
  relies on, because every column access checks \<open>columns\<close> first and raises
  \<open>KeyError\<close>.
\<close>

type_synonym row = "(string \<times> cell) list"

definition get :: "row \<Rightarrow> string \<Rightarrow> cell" where
  "get r col = (case map_of r col of None \<Rightarrow> NA | Some c \<Rightarrow> c)"

record frame =
  columns :: "(string \<times> dtype) list"
  rows :: "row list"

datatype error = KeyError string | TypeError | AttributeError

definition has_column :: "frame \<Rightarrow> string \<Rightarrow> bool" where
  "has_column df col = (map_of (columns df) col \<noteq> None)"

definition column :: "frame \<Rightarrow> string \<Rightarrow> cell list" where
  "column df col = map (\<lambda>r. get r col) (rows df)"

text \<open>
  \<open>df[col] = values\<close>: the column is replaced where it stands, or appended when new.
  The values are given row by row.
\<close>

definition set_column :: "frame \<Rightarrow> string \<Rightarrow> dtype \<Rightarrow> (row \<Rightarrow> cell) \<Rightarrow> frame" where
  "set_column df col dt f =
     \<lparr>columns = AList.update col dt (columns df),
      rows = map (\<lambda>r. AList.update col (f r) r) (rows df)\<rparr>"

text \<open>\<open>df[mask]\<close>: the rows where the mask holds, in order; columns and dtypes stay.\<close>

definition select_rows :: "(row \<Rightarrow> bool) \<Rightarrow> frame \<Rightarrow> frame" where
  "select_rows p df = \<lparr>columns = columns df, rows = filter p (rows df)\<rparr>"

subsection \<open>Date coercion (lines 40-45)\<close>

text \<open>
  \<open>pd.to_datetime(series, errors='coerce')\<close> belongs to pandas, so its parser is a
  parameter: \<open>raises\<close> says on which columns the call throws, \<open>coerce\<close> converts one
  cell, and a cell that does not convert becomes NaT.
\<close>

record parser =
  raises :: "cell list \<Rightarrow> bool"
  coerce :: "cell \<Rightarrow> timestamp option"

definition to_cell :: "timestamp option \<Rightarrow> cell" where
  "to_cell t = (case t of None \<Rightarrow> NA | Some s \<Rightarrow> Ts s)"

definition is_date_name :: "string \<Rightarrow> bool" where
  "is_date_name col = (sublist ''date'' col \<or> sublist ''timestamp'' col)"

definition date_cols :: "frame \<Rightarrow> string list" where
  "date_cols df = filter is_date_name (map fst (columns df))"

text \<open>One round of the loop: the \<open>try\<close> body, and \<open>pass\<close> when it throws.\<close>

definition coerce_column :: "parser \<Rightarrow> frame \<Rightarrow> string \<Rightarrow> frame" where
  "coerce_column P df col =
     (if raises P (column df col) then df
      else set_column df col Datetime64 (\<lambda>r. to_cell (coerce P (get r col))))"

definition coerce_dates :: "parser \<Rightarrow> frame \<Rightarrow> frame" where
  "coerce_dates P df = foldl (coerce_column P) df (date_cols df)"

subsection \<open>Delivery time (lines 48-52)\<close>

text \<open>Days since 1970-01-01 of a calendar date (proleptic Gregorian calendar).\<close>

definition days_from_civil :: "int \<Rightarrow> nat \<Rightarrow> nat \<Rightarrow> int" where
  "days_from_civil y m d =
     (let y' = (if m \<le> 2 then y - 1 else y);
          era = y' div 400;
          yoe = y' - era * 400;
          mp = (int m + 9) mod 12;
          doy = (153 * mp + 2) div 5 + int d - 1;
          doe = yoe * 365 + yoe div 4 - yoe div 100 + doy
      in era * 146097 + doe - 719468)"

definition epoch_seconds :: "timestamp \<Rightarrow> int" where
  "epoch_seconds t =
     days_from_civil (ts_year t) (ts_month t) (ts_day t) * 86400 + int (ts_second t)"

text \<open>
  \<open>(a - b).dt.days\<close> for one row: the whole days of the difference, rounded down, and
  missing when either side is.
\<close>

definition delta_days :: "cell \<Rightarrow> cell \<Rightarrow> cell" where
  "delta_days a b =
     (case (a, b) of
        (Ts s, Ts t) \<Rightarrow> Num (of_int ((epoch_seconds s - epoch_seconds t) div 86400))
      | _ \<Rightarrow> NA)"

definition derive_delivery_time :: "frame \<Rightarrow> error + frame" where
  "derive_delivery_time df =
     (if \<not> has_column df ''delivery_time_days'' then
        if has_column df ''order_delivered_customer_date''
           \<and> has_column df ''order_purchase_timestamp''
        then
          (case (map_of (columns df) ''order_delivered_customer_date'',
                 map_of (columns df) ''order_purchase_timestamp'') of
             (Some Datetime64, Some Datetime64) \<Rightarrow>
               Inr (set_column df ''delivery_time_days'' Float64
                     (\<lambda>r. delta_days (get r ''order_delivered_customer_date'')
                                     (get r ''order_purchase_timestamp'')))
           | (Some Float64, Some Float64) \<Rightarrow> Inl AttributeError
           | _ \<Rightarrow> Inl TypeError)
        else Inr df
      else Inr df)"

subsection \<open>Dropping invalid rows (lines 55-56)\<close>

definition is_num :: "cell \<Rightarrow> bool" where
  "is_num c = (case c of Num _ \<Rightarrow> True | _ \<Rightarrow> False)"

definition num_of :: "cell \<Rightarrow> real option" where
  "num_of c = (case c of Num v \<Rightarrow> Some v | _ \<Rightarrow> None)"

definition non_negative :: "cell \<Rightarrow> bool" where
  "non_negative c = (case c of Num v \<Rightarrow> 0 \<le> v | _ \<Rightarrow> False)"

text \<open>
  Line 55 keeps the rows whose delivery time is present; line 56 compares what is left
  with 0, which pandas refuses (\<open>TypeError\<close>) when a cell left is not a number. Both
  lines read \<open>df['delivery_time_days']\<close>, which raises \<open>KeyError\<close> when the table
  has no such column.
\<close>

definition drop_invalid :: "frame \<Rightarrow> error + frame" where
  "drop_invalid df =
     (if \<not> has_column df ''delivery_time_days'' then Inl (KeyError ''delivery_time_days'')
      else
        let df1 = select_rows (\<lambda>r. get r ''delivery_time_days'' \<noteq> NA) df in
        if list_ex (\<lambda>r. \<not> is_num (get r ''delivery_time_days'')) (rows df1) then Inl TypeError
        else Inr (select_rows (\<lambda>r. non_negative (get r ''delivery_time_days'')) df1))"

subsection \<open>Period columns (lines 59-60)\<close>

definition to_period :: "cell \<Rightarrow> cell" where
  "to_period c = (case c of Ts t \<Rightarrow> Per (ts_year t, ts_month t) | _ \<Rightarrow> NA)"

definition year_of :: "cell \<Rightarrow> cell" where
  "year_of c = (case c of Ts t \<Rightarrow> Num (of_int (ts_year t)) | _ \<Rightarrow> NA)"

text \<open>
  The \<open>.dt\<close> accessor exists on datetime columns only; on any other column pandas
  raises \<open>AttributeError\<close>.
\<close>

definition dt_accessor :: "frame \<Rightarrow> string \<Rightarrow> error + unit" where
  "dt_accessor df col =
     (case map_of (columns df) col of
        None \<Rightarrow> Inl (KeyError col)
      | Some Datetime64 \<Rightarrow> Inr ()
      | Some _ \<Rightarrow> Inl AttributeError)"

definition add_periods :: "frame \<Rightarrow> error + frame" where
  "add_periods df =
     (case dt_accessor df ''order_purchase_timestamp'' of
        Inl e \<Rightarrow> Inl e
      | Inr _ \<Rightarrow>
          Inr (set_column
                 (set_column df ''order_year_month'' PeriodM
                    (\<lambda>r. to_period (get r ''order_purchase_timestamp'')))
                 ''order_year'' Float64
                 (\<lambda>r. year_of (get r ''order_purchase_timestamp''))))"

subsection \<open>Preparation (lines 40-60)\<close>

definition prepare :: "parser \<Rightarrow> frame \<Rightarrow> error + frame" where
  "prepare P df =
     (case derive_delivery_time (coerce_dates P df) of
        Inl e \<Rightarrow> Inl e
      | Inr df1 \<Rightarrow>
          (case drop_invalid df1 of
             Inl e \<Rightarrow> Inl e
           | Inr df2 \<Rightarrow> add_periods df2))"

subsection \<open>Year filter (lines 67-73)\<close>

text \<open>
  What the select box returns: the string \<open>'Semua'\<close> (all years) or a year. A year
  is never equal to the string, so \<open>tahun_terpilih != 'Semua'\<close> is the case split.
\<close>

datatype selection = Semua | Tahun real

text \<open>
  \<open>['Semua'] + sorted(df['order_year'].dropna().unique().tolist())\<close>
\<close>

definition tahun_opsi :: "frame \<Rightarrow> error + selection list" where
  "tahun_opsi df =
     (if \<not> has_column df ''order_year'' then Inl (KeyError ''order_year'')
      else Inr (Semua # map Tahun (sort (remdups (List.map_filter num_of (column df ''order_year''))))))"

definition filtered_df :: "selection \<Rightarrow> frame \<Rightarrow> error + frame" where
  "filtered_df tahun_terpilih df =
     (case tahun_terpilih of
        Semua \<Rightarrow> Inr df
      | Tahun y \<Rightarrow>
          if \<not> has_column df ''order_year'' then Inl (KeyError ''order_year'')
          else Inr (select_rows (\<lambda>r. get r ''order_year'' = Num y) df))"

subsection \<open>Grouping\<close>

text \<open>
  \<open>groupby\<close> with its defaults: rows whose key is missing belong to no group, and the
  groups come sorted by key. \<open>key\<close> reads the key of a row, \<open>None\<close> when it is missing.
\<close>

definition group_keys :: "(row \<Rightarrow> 'k option) \<Rightarrow> row list \<Rightarrow> ('k::linorder) list" where
  "group_keys key rs = sort (remdups (List.map_filter key rs))"

definition group_rows :: "(row \<Rightarrow> 'k option) \<Rightarrow> row list \<Rightarrow> 'k \<Rightarrow> row list" where
  "group_rows key rs k = filter (\<lambda>r. key r = Some k) rs"

text \<open>\<open>nunique()\<close>: the number of distinct values, missing ones not counted.\<close>

definition nunique :: "cell list \<Rightarrow> nat" where
  "nunique xs = length (remdups (filter (\<lambda>c. c \<noteq> NA) xs))"

text \<open>
  \<open>sum()\<close> skips missing values; a group with none sums to 0. \<open>nansum\<close> is the
  sum in exact arithmetic. pandas adds 64-bit floating point numbers and rounds after
  every addition: \<open>float_sum\<close> is that sum, with the rounding \<open>rnd\<close> of the number
  format as a parameter and the values added in row order. The two agree where no
  addition rounds (\<open>float_sum_exact\<close> below), as for whole numbers of a total
  size up to \<open>2 ^ 53\<close>; there the order of the additions does not matter either.
\<close>

definition nansum :: "cell list \<Rightarrow> real" where
  "nansum xs = sum_list (List.map_filter num_of xs)"



text \<open>\<open>mean()\<close> skips missing values; a group with none has a missing mean.\<close>

definition nanmean :: "cell list \<Rightarrow> cell" where
  "nanmean xs =
     (let vs = List.map_filter num_of xs
      in if vs = [] then NA else Num (sum_list vs / real (length vs)))"

definition require_column :: "frame \<Rightarrow> string \<Rightarrow> error + unit" where
  "require_column df col = (if has_column df col then Inr () else Inl (KeyError col))"

subsection \<open>Monthly views (lines 91-96 and 109-114)\<close>

text \<open>The grouping key \<open>filtered_df['order_purchase_timestamp'].dt.to_period('M')\<close>.\<close>

definition month_key :: "row \<Rightarrow> period option" where
  "month_key r =
     (case get r ''order_purchase_timestamp'' of Ts t \<Rightarrow> Some (ts_year t, ts_month t) | _ \<Rightarrow> None)"

text \<open>\<open>.dt.to_timestamp()\<close> of a monthly period: the start of its first day.\<close>

definition to_timestamp :: "period \<Rightarrow> timestamp" where
  "to_timestamp p = Timestamp (fst p) (snd p) 1 0"

definition orders_per_month :: "frame \<Rightarrow> error + (timestamp \<times> nat) list" where
  "orders_per_month df =
     (case dt_accessor df ''order_purchase_timestamp'' of
        Inl e \<Rightarrow> Inl e
      | Inr _ \<Rightarrow>
          (case require_column df ''order_id'' of
             Inl e \<Rightarrow> Inl e
           | Inr _ \<Rightarrow>
               Inr (map (\<lambda>k. (to_timestamp k,
                               nunique (map (\<lambda>r. get r ''order_id'') (group_rows month_key (rows df) k))))
                        (group_keys month_key (rows df)))))"

definition revenue_per_month :: "frame \<Rightarrow> error + (timestamp \<times> real) list" where
  "revenue_per_month df =
     (case dt_accessor df ''order_purchase_timestamp'' of
        Inl e \<Rightarrow> Inl e
      | Inr _ \<Rightarrow>
          (case require_column df ''price'' of
             Inl e \<Rightarrow> Inl e
           | Inr _ \<Rightarrow>
               Inr (map (\<lambda>k. (to_timestamp k,
                               nansum (map (\<lambda>r. get r ''price'') (group_rows month_key (rows df) k))))
                        (group_keys month_key (rows df)))))"

subsection \<open>Top 10 categories (lines 127-133)\<close>

definition category_key :: "row \<Rightarrow> string option" where
  "category_key r = (case get r ''product_category_name'' of Str s \<Rightarrow> Some s | _ \<Rightarrow> None)"

text \<open>\<open>groupby('product_category_name')['price'].sum()\<close>\<close>

definition revenue_per_category :: "row list \<Rightarrow> (string \<times> real) list" where
  "revenue_per_category rs =
     map (\<lambda>k. (k, nansum (map (\<lambda>r. get r ''price'') (group_rows category_key rs k))))
         (group_keys category_key rs)"

text \<open>
  \<open>sort_values(ascending=False)\<close>: by revenue, largest first. pandas leaves the order of
  equal revenues to its sorting routine; the model keeps them in group order.
\<close>

definition sort_values_desc :: "('k \<times> real) list \<Rightarrow> ('k \<times> real) list" where
  "sort_values_desc xs = sort_key (\<lambda>kv. - snd kv) xs"

definition top10_products :: "frame \<Rightarrow> error + (string \<times> real) list" where
  "top10_products df =
     (case require_column df ''product_category_name'' of
        Inl e \<Rightarrow> Inl e
      | Inr _ \<Rightarrow>
          (case require_column df ''price'' of
             Inl e \<Rightarrow> Inl e
           | Inr _ \<Rightarrow> Inr (take 10 (sort_values_desc (revenue_per_category (rows df))))))"

subsection \<open>Delivery time views (lines 155 and 163-182)\<close>

text \<open>The series handed to the histogram, \<open>filtered_df['delivery_time_days']\<close>.\<close>

definition delivery_time_series :: "frame \<Rightarrow> error + cell list" where
  "delivery_time_series df =
     (case require_column df ''delivery_time_days'' of
        Inl e \<Rightarrow> Inl e
      | Inr _ \<Rightarrow> Inr (column df ''delivery_time_days''))"

definition review_key :: "row \<Rightarrow> real option" where
  "review_key r = num_of (get r ''review_score'')"

definition delivery_vs_review :: "frame \<Rightarrow> error + (real \<times> cell) list" where
  "delivery_vs_review df =
     (case require_column df ''review_score'' of
        Inl e \<Rightarrow> Inl e
      | Inr _ \<Rightarrow>
          (case require_column df ''delivery_time_days'' of
             Inl e \<Rightarrow> Inl e
           | Inr _ \<Rightarrow>
               Inr (map (\<lambda>k. (k, nanmean (map (\<lambda>r. get r ''delivery_time_days'')
                                               (group_rows review_key (rows df) k))))
                        (group_keys review_key (rows df)))))"

text \<open>The same aggregate followed by \<open>sort_values(by='review_score', ascending=True)\<close>.\<close>

definition avg_delivery :: "frame \<Rightarrow> error + (real \<times> cell) list" where
  "avg_delivery df =
     (case delivery_vs_review df of
        Inl e \<Rightarrow> Inl e
      | Inr t \<Rightarrow> Inr (sort_key fst t))"

subsection \<open>Reference quantities\<close>

text \<open>
  The quantities the views are compared with, written from their description: the revenue
  of a category is the sum of \<open>price\<close> over the rows of that category.
\<close>

definition category_revenue :: "frame \<Rightarrow> string \<Rightarrow> real" where
  "category_revenue df c =
     nansum (map (\<lambda>r. get r ''price'')
               (filter (\<lambda>r. get r ''product_category_name'' = Str c) (rows df)))"


definition total_orders :: "frame \<Rightarrow> nat" where
  "total_orders df = nunique (column df ''order_id'')"

text \<open>A row is dated when its purchase cell holds a timestamp.\<close>

definition dated :: "row \<Rightarrow> bool" where
  "dated r = (case get r ''order_purchase_timestamp'' of Ts t \<Rightarrow> True | _ \<Rightarrow> False)"

text \<open>What a row adds to the sum of a column: its number there, or nothing.\<close>

definition amount :: "(row \<Rightarrow> cell) \<Rightarrow> row \<Rightarrow> real" where
  "amount f r = (case num_of (f r) of None \<Rightarrow> 0 | Some v \<Rightarrow> v)"

text \<open>A table split into its dated rows and the others.\<close>

definition dated_part :: "frame \<Rightarrow> frame" where
  "dated_part df = select_rows dated df"

definition undated_part :: "frame \<Rightarrow> frame" where
  "undated_part df = select_rows (\<lambda>r. \<not> dated r) df"

subsection \<open>Example tables\<close>

text \<open>
  The tables used to run the definitions. The parser of the examples is given by the
  table of the date strings that occur in them; it never throws.
\<close>

definition example_parser :: parser where
  "example_parser =
     \<lparr>raises = (\<lambda>xs. False),
      coerce = map_of
        [(Str ''2023-01-05'', Timestamp 2023 1 5 0),
         (Str ''2023-01-10'', Timestamp 2023 1 10 0),
         (Str ''2023-01-20'', Timestamp 2023 1 20 0),
         (Str ''2023-01-22'', Timestamp 2023 1 22 0),
         (Str ''2023-02-03'', Timestamp 2023 2 3 0),
         (Str ''2023-02-01'', Timestamp 2023 2 1 0)]\<rparr>"

text \<open>
  The two rows of the scenario of the specification, a row delivered before it was
  bought and a row never delivered.
\<close>

definition example_input :: frame where
  "example_input =
     \<lparr>columns =
        [(''order_id'', Float64), (''order_purchase_timestamp'', Object),
         (''order_delivered_customer_date'', Object), (''price'', Float64),
         (''product_category_name'', Object), (''review_score'', Float64)],
      rows =
        [[(''order_id'', Num 1), (''order_purchase_timestamp'', Str ''2023-01-05''),
          (''order_delivered_customer_date'', Str ''2023-01-10''), (''price'', Num 100),
          (''product_category_name'', Str ''toys''), (''review_score'', Num 4)],
         [(''order_id'', Num 2), (''order_purchase_timestamp'', Str ''2023-01-20''),
          (''order_delivered_customer_date'', Str ''2023-01-22''), (''price'', Num 50),
          (''product_category_name'', Str ''toys''), (''review_score'', Num 5)],
         [(''order_id'', Num 3), (''order_purchase_timestamp'', Str ''2023-02-03''),
          (''order_delivered_customer_date'', Str ''2023-02-01''), (''price'', Num 70),
          (''product_category_name'', Str ''books''), (''review_score'', Num 1)],
         [(''order_id'', Num 4), (''order_purchase_timestamp'', Str ''2023-02-03''),
          (''order_delivered_customer_date'', NA), (''price'', Num 30),
          (''product_category_name'', Str ''books''), (''review_score'', NA)]]\<rparr>"

definition example_prepared :: frame where
  "example_prepared =
     \<lparr>columns =
        [(''order_id'', Float64), (''order_purchase_timestamp'', Datetime64),
         (''order_delivered_customer_date'', Datetime64), (''price'', Float64),
         (''product_category_name'', Object), (''review_score'', Float64),
         (''delivery_time_days'', Float64), (''order_year_month'', PeriodM),
         (''order_year'', Float64)],
      rows =
        [[(''order_id'', Num 1), (''order_purchase_timestamp'', Ts (Timestamp 2023 1 5 0)),
          (''order_delivered_customer_date'', Ts (Timestamp 2023 1 10 0)), (''price'', Num 100),
          (''product_category_name'', Str ''toys''), (''review_score'', Num 4),
          (''delivery_time_days'', Num 5), (''order_year_month'', Per (2023, 1)),
          (''order_year'', Num 2023)],
         [(''order_id'', Num 2), (''order_purchase_timestamp'', Ts (Timestamp 2023 1 20 0)),
          (''order_delivered_customer_date'', Ts (Timestamp 2023 1 22 0)), (''price'', Num 50),
          (''product_category_name'', Str ''toys''), (''review_score'', Num 5),
          (''delivery_time_days'', Num 2), (''order_year_month'', Per (2023, 1)),
          (''order_year'', Num 2023)]]\<rparr>"

text \<open>
  A table that comes with its own \<open>delivery_time_days\<close> column and no delivery date.
  The purchase time of its first row is missing; the second row has a negative and the
  third a missing delivery time.
\<close>

definition stored_input :: frame where
  "stored_input =
     \<lparr>columns =
        [(''order_id'', Float64), (''order_purchase_timestamp'', Object),
         (''price'', Float64), (''product_category_name'', Object),
         (''review_score'', Float64), (''delivery_time_days'', Float64)],
      rows =
        [[(''order_id'', Num 1), (''order_purchase_timestamp'', NA), (''price'', Num 100),
          (''product_category_name'', Str ''toys''), (''review_score'', Num 4),
          (''delivery_time_days'', Num 3)],
         [(''order_id'', Num 2), (''order_purchase_timestamp'', Str ''2023-01-20''),
          (''price'', Num 50), (''product_category_name'', Str ''toys''),
          (''review_score'', Num 5), (''delivery_time_days'', Num (- 1))],
         [(''order_id'', Num 3), (''order_purchase_timestamp'', Str ''2023-02-03''),
          (''price'', Num 70), (''product_category_name'', Str ''books''),
          (''review_score'', Num 1), (''delivery_time_days'', NA)],
         [(''order_id'', Num 4), (''order_purchase_timestamp'', Str ''2023-02-03''),
          (''price'', Num 30), (''product_category_name'', Str ''books''),
          (''review_score'', Num 4), (''delivery_time_days'', Num 7)]]\<rparr>"

definition stored_prepared :: frame where
  "stored_prepared =
     \<lparr>columns =
        [(''order_id'', Float64), (''order_purchase_timestamp'', Datetime64),
         (''price'', Float64), (''product_category_name'', Object),
         (''review_score'', Float64), (''delivery_time_days'', Float64),
         (''order_year_month'', PeriodM), (''order_year'', Float64)],
      rows =
        [[(''order_id'', Num 1), (''order_purchase_timestamp'', NA), (''price'', Num 100),
          (''product_category_name'', Str ''toys''), (''review_score'', Num 4),
          (''delivery_time_days'', Num 3), (''order_year_month'', NA), (''order_year'', NA)],
         [(''order_id'', Num 4), (''order_purchase_timestamp'', Ts (Timestamp 2023 2 3 0)),
          (''price'', Num 30), (''product_category_name'', Str ''books''),
          (''review_score'', Num 4), (''delivery_time_days'', Num 7),
          (''order_year_month'', Per (2023, 2)), (''order_year'', Num 2023)]]\<rparr>"

text \<open>Tables without a delivery time and without both source columns.\<close>

definition bare_input :: frame where
  "bare_input =
     \<lparr>columns = [(''order_id'', Float64), (''price'', Float64)],
      rows = [[(''order_id'', Num 1), (''price'', Num 100)]]\<rparr>"

definition undelivered_input :: frame where
  "undelivered_input =
     \<lparr>columns =
        [(''order_id'', Float64), (''order_purchase_timestamp'', Object), (''price'', Float64)],
      rows =
        [[(''order_id'', Num 1), (''order_purchase_timestamp'', Str ''2023-01-05''),
          (''price'', Num 100)]]\<rparr>"

text \<open>A table of eleven categories; \<open>k\<close> is the smallest and appears in two rows.\<close>

definition sale :: "string \<Rightarrow> real \<Rightarrow> row" where
  "sale c p = [(''product_category_name'', Str c), (''price'', Num p)]"

definition category_table :: frame where
  "category_table =
     \<lparr>columns = [(''product_category_name'', Object), (''price'', Float64)],
      rows =
        [sale ''a'' 10, sale ''b'' 20, sale ''c'' 30, sale ''d'' 40, sale ''e'' 50,
         sale ''f'' 60, sale ''k'' 1, sale ''g'' 70, sale ''h'' 80, sale ''i'' 90,
         sale ''j'' 100, sale ''k'' 2, sale ''a'' 5]\<rparr>"

text \<open>An order bought in two parts, one in January and one in February.\<close>

definition split_order_input :: frame where
  "split_order_input =
     \<lparr>columns =
        [(''order_id'', Float64), (''order_purchase_timestamp'', Object),
         (''order_delivered_customer_date'', Object), (''price'', Float64)],
      rows =
        [[(''order_id'', Num 1), (''order_purchase_timestamp'', Str ''2023-01-05''),
          (''order_delivered_customer_date'', Str ''2023-01-10''), (''price'', Num 100)],
         [(''order_id'', Num 1), (''order_purchase_timestamp'', Str ''2023-02-01''),
          (''order_delivered_customer_date'', Str ''2023-02-03''), (''price'', Num 50)]]\<rparr>"

definition split_order_prepared :: frame where
  "split_order_prepared =
     \<lparr>columns =
        [(''order_id'', Float64), (''order_purchase_timestamp'', Datetime64),
         (''order_delivered_customer_date'', Datetime64), (''price'', Float64),
         (''delivery_time_days'', Float64), (''order_year_month'', PeriodM),
         (''order_year'', Float64)],
      rows =
        [[(''order_id'', Num 1), (''order_purchase_timestamp'', Ts (Timestamp 2023 1 5 0)),
          (''order_delivered_customer_date'', Ts (Timestamp 2023 1 10 0)), (''price'', Num 100),
          (''delivery_time_days'', Num 5), (''order_year_month'', Per (2023, 1)),
          (''order_year'', Num 2023)],
         [(''order_id'', Num 1), (''order_purchase_timestamp'', Ts (Timestamp 2023 2 1 0)),
          (''order_delivered_customer_date'', Ts (Timestamp 2023 2 3 0)), (''price'', Num 50),
          (''delivery_time_days'', Num 2), (''order_year_month'', Per (2023, 2)),
          (''order_year'', Num 2023)]]\<rparr>"








section \<open>Properties\<close>

subsection \<open>Columns under assignment and coercion\<close>

lemma get_update: "get (AList.update k v r) c = (if c = k then v else get r c)"
  by (simp add: get_def update_conv')

lemma has_column_set_column:
  "has_column (set_column df col dt f) c \<longleftrightarrow> c = col \<or> has_column df c"
  by (simp add: has_column_def set_column_def update_conv')

lemma dtype_set_column:
  "map_of (columns (set_column df col dt f)) c = (if c = col then Some dt else map_of (columns df) c)"
  by (simp add: set_column_def update_conv')

lemma column_set_column:
  "column (set_column df col dt f) c = (if c = col then map f (rows df) else column df c)"
  by (simp add: set_column_def column_def get_update)

lemma rows_set_column:
  "rows (set_column df col dt f) = map (\<lambda>r. AList.update col (f r) r) (rows df)"
  by (simp add: set_column_def)

lemma coerce_column_other:
  "c \<noteq> col \<Longrightarrow> column (coerce_column P df col) c = column df c"
  "c \<noteq> col \<Longrightarrow> map_of (columns (coerce_column P df col)) c = map_of (columns df) c"
  by (simp_all add: coerce_column_def column_set_column dtype_set_column)

lemma foldl_coerce_other:
  "c \<notin> set cs \<Longrightarrow>
     column (foldl (coerce_column P) df cs) c = column df c
   \<and> map_of (columns (foldl (coerce_column P) df cs)) c = map_of (columns df) c"
  by (induction cs arbitrary: df) (simp_all add: coerce_column_other)

lemma has_column_coerce_column:
  "has_column df col \<Longrightarrow> has_column (coerce_column P df col) c = has_column df c"
  by (auto simp: coerce_column_def has_column_set_column)

lemma foldl_coerce_has_column:
  "\<forall>col \<in> set cs. has_column df col \<Longrightarrow>
     has_column (foldl (coerce_column P) df cs) c = has_column df c"
  by (induction cs arbitrary: df) (simp_all add: has_column_coerce_column)

lemma date_cols_has_column: "col \<in> set (date_cols df) \<Longrightarrow> has_column df col"
  by (auto simp: date_cols_def has_column_def map_of_eq_None_iff image_iff)

lemma has_column_coerce_dates: "has_column (coerce_dates P df) c = has_column df c"
  unfolding coerce_dates_def
  by (rule foldl_coerce_has_column) (simp add: date_cols_has_column)



lemma not_date_delivery: "\<not> is_date_name ''delivery_time_days''"
  by (simp add: is_date_name_def sublist_code)

lemma column_coerce_dates_other:
  "\<not> is_date_name c \<Longrightarrow> column (coerce_dates P df) c = column df c"
  unfolding coerce_dates_def
  using foldl_coerce_other [of c "date_cols df" P df] by (simp add: date_cols_def)

subsection \<open>Preparation\<close>

lemma derive_keeps_present:
  "has_column df ''delivery_time_days'' \<Longrightarrow> derive_delivery_time df = Inr df"
  by (simp add: derive_delivery_time_def)

lemma drop_invalid_rows:
  assumes "drop_invalid df = Inr df'"
  shows "rows df' = filter (\<lambda>r. non_negative (get r ''delivery_time_days'')) (rows df)"
    and "columns df' = columns df"
proof -
  have eq: "df' = select_rows (\<lambda>r. non_negative (get r ''delivery_time_days''))
                    (select_rows (\<lambda>r. get r ''delivery_time_days'' \<noteq> NA) df)"
    using assms by (simp add: drop_invalid_def Let_def split: if_splits)
  have imp: "\<And>r. non_negative (get r ''delivery_time_days'') \<Longrightarrow> get r ''delivery_time_days'' \<noteq> NA"
    by (auto simp: non_negative_def)
  show "rows df' = filter (\<lambda>r. non_negative (get r ''delivery_time_days'')) (rows df)"
    unfolding eq select_rows_def using imp by (auto intro: filter_cong)
  show "columns df' = columns df"
    unfolding eq select_rows_def by simp
qed

lemma add_periods_rows:
  assumes "add_periods df = Inr df'"
  shows "rows df' =
           map (\<lambda>r. AList.update ''order_year'' (year_of (get r ''order_purchase_timestamp''))
                      (AList.update ''order_year_month''
                         (to_period (get r ''order_purchase_timestamp'')) r))
               (rows df)"
  using assms
  by (auto simp: add_periods_def rows_set_column get_update o_def split: sum.splits)

lemma non_negative_iff: "non_negative c \<longleftrightarrow> (\<exists>v. c = Num v \<and> 0 \<le> v)"
  by (cases c) (simp_all add: non_negative_def)

lemma prepare_example_input: "prepare example_parser example_input = Inr example_prepared"
  by code_simp

lemma prepare_stored_input: "prepare example_parser stored_input = Inr stored_prepared"
  by code_simp

text \<open>
  Claim C1. When preparation returns a table, every row of it has a delivery time that is
  present and at least 0. The rows are those of the table after lines 40-52 whose
  delivery time is present and not negative, each only extended by the two period
  columns; when the input came with the column, the prepared column is the input column
  without its missing and negative entries.
\<close>

theorem prepared_delivery_time_valid:
  assumes "prepare P df = Inr df'"
  shows "(\<forall>r \<in> set (rows df'). \<exists>v. get r ''delivery_time_days'' = Num v \<and> 0 \<le> v)
       \<and> (\<exists>df1. derive_delivery_time (coerce_dates P df) = Inr df1
             \<and> rows df' =
                 map (\<lambda>r. AList.update ''order_year'' (year_of (get r ''order_purchase_timestamp''))
                            (AList.update ''order_year_month''
                               (to_period (get r ''order_purchase_timestamp'')) r))
                     (filter (\<lambda>r. non_negative (get r ''delivery_time_days'')) (rows df1)))
       \<and> (has_column df ''delivery_time_days'' \<longrightarrow>
            column df' ''delivery_time_days''
              = filter non_negative (column df ''delivery_time_days''))"
proof -
  from assms obtain df1 df2 where
    d1: "derive_delivery_time (coerce_dates P df) = Inr df1" and
    d2: "drop_invalid df1 = Inr df2" and
    d3: "add_periods df2 = Inr df'"
    by (auto simp: prepare_def split: sum.splits)
  let ?ext = "\<lambda>r. AList.update ''order_year'' (year_of (get r ''order_purchase_timestamp''))
                            (AList.update ''order_year_month''
                               (to_period (get r ''order_purchase_timestamp'')) r)"
  have rows': "rows df' = map ?ext (filter (\<lambda>r. non_negative (get r ''delivery_time_days'')) (rows df1))"
    using add_periods_rows [OF d3] drop_invalid_rows(1) [OF d2] by simp
  have keep: "\<And>r. get (?ext r) ''delivery_time_days'' = get r ''delivery_time_days''"
    by (simp add: get_update)
  have col': "column df' ''delivery_time_days'' = filter non_negative (column df1 ''delivery_time_days'')"
    unfolding column_def rows' by (simp add: keep o_def filter_map)
  have a: "\<forall>r \<in> set (rows df'). \<exists>v. get r ''delivery_time_days'' = Num v \<and> 0 \<le> v"
    unfolding rows' by (auto simp: keep non_negative_iff)
  have c: "column df' ''delivery_time_days'' = filter non_negative (column df ''delivery_time_days'')"
    if h: "has_column df ''delivery_time_days''"
  proof -
    have "has_column (coerce_dates P df) ''delivery_time_days''"
      using h by (simp add: has_column_coerce_dates)
    then have "df1 = coerce_dates P df"
      using d1 by (simp add: derive_keeps_present)
    then show ?thesis
      using col' by (simp add: column_coerce_dates_other not_date_delivery)
  qed
  from a d1 rows' c show ?thesis by blast
qed

theorem prepared_delivery_time_valid_witness:
  "prepare example_parser stored_input = Inr stored_prepared
   \<and> has_column stored_input ''delivery_time_days''
   \<and> list_all (\<lambda>r. non_negative (get r ''delivery_time_days'')) (rows stored_prepared)
   \<and> column stored_prepared ''delivery_time_days''
         = filter non_negative (column stored_input ''delivery_time_days'')"
proof -
  have h: "has_column stored_input ''delivery_time_days''"
    by code_simp
  note valid = prepared_delivery_time_valid [OF prepare_stored_input]
  from valid have "\<forall>r \<in> set (rows stored_prepared). non_negative (get r ''delivery_time_days'')"
    by (simp add: non_negative_iff)
  then have "list_all (\<lambda>r. non_negative (get r ''delivery_time_days'')) (rows stored_prepared)"
    by (simp add: list_all_iff)
  with valid h prepare_stored_input show ?thesis
    by blast
qed

text \<open>
  Claim C2, as amended. When the table has no \<open>delivery_time_days\<close> column and lacks
  one of the two source columns, lines 48-52 leave the column absent, and line 55 then
  raises \<open>KeyError\<close> on it: preparation ends with that error and returns no table.
\<close>

theorem missing_delivery_column_raises:
  assumes "\<not> has_column df ''delivery_time_days''"
    and "\<not> has_column df ''order_delivered_customer_date''
         \<or> \<not> has_column df ''order_purchase_timestamp''"
  shows "derive_delivery_time (coerce_dates P df) = Inr (coerce_dates P df)
       \<and> \<not> has_column (coerce_dates P df) ''delivery_time_days''
       \<and> prepare P df = Inl (KeyError ''delivery_time_days'')"
  using assms
  by (auto simp: prepare_def derive_delivery_time_def drop_invalid_def has_column_coerce_dates)

theorem missing_delivery_column_raises_witness:
  "\<not> has_column undelivered_input ''delivery_time_days''
   \<and> \<not> has_column undelivered_input ''order_delivered_customer_date''
   \<and> prepare example_parser undelivered_input = Inl (KeyError ''delivery_time_days'')"
proof -
  have h1: "\<not> has_column undelivered_input ''delivery_time_days''"
    by code_simp
  have h2: "\<not> has_column undelivered_input ''order_delivered_customer_date''"
    by code_simp
  show ?thesis
    using missing_delivery_column_raises [of undelivered_input example_parser] h1 h2
    by blast
qed

text \<open>
  Claim C2, as stated, fails: a table with neither the delivery time nor the two source
  columns is not turned into an empty prepared table; preparation raises.
\<close>

theorem missing_delivery_column_counterexample:
  "\<not> has_column bare_input ''delivery_time_days''
   \<and> \<not> has_column bare_input ''order_delivered_customer_date''
   \<and> \<not> has_column bare_input ''order_purchase_timestamp''
   \<and> prepare example_parser bare_input = Inl (KeyError ''delivery_time_days'')"
  by code_simp

subsection \<open>Year filter\<close>

lemma set_map_filter: "set (List.map_filter f xs) = {y. \<exists>x \<in> set xs. f x = Some y}"
  by (induction xs) (auto split: option.splits)

lemma group_keys_sorted: "sorted (group_keys key rs)"
  by (simp add: group_keys_def)

lemma group_keys_distinct: "distinct (group_keys key rs)"
  by (simp add: group_keys_def)

lemma set_group_keys: "set (group_keys key rs) = {k. \<exists>r \<in> set rs. key r = Some k}"
  by (auto simp: group_keys_def set_map_filter)

lemma group_keys_Nil: "group_keys key [] = []"
  by (simp add: group_keys_def)

lemma num_of_eq_Some: "num_of c = Some v \<longleftrightarrow> c = Num v"
  by (cases c) (simp_all add: num_of_def)

lemma add_periods_columns:
  assumes "add_periods df = Inr df'"
  shows "map_of (columns df') ''order_purchase_timestamp'' = Some Datetime64"
    and "has_column df' ''order_year''"
    and "c \<noteq> ''order_year'' \<Longrightarrow> c \<noteq> ''order_year_month'' \<Longrightarrow> has_column df' c = has_column df c"
  using assms
  by (auto simp: add_periods_def dt_accessor_def dtype_set_column has_column_set_column
      split: sum.splits option.splits dtype.splits)

lemma prepare_columns:
  assumes "prepare P df = Inr df'"
  shows "map_of (columns df') ''order_purchase_timestamp'' = Some Datetime64"
    and "has_column df' ''order_year''"
    and "has_column df' ''delivery_time_days''"
proof -
  from assms obtain df1 df2 where
    d1: "derive_delivery_time (coerce_dates P df) = Inr df1" and
    d2: "drop_invalid df1 = Inr df2" and
    d3: "add_periods df2 = Inr df'"
    by (auto simp: prepare_def split: sum.splits)
  show "map_of (columns df') ''order_purchase_timestamp'' = Some Datetime64"
    and "has_column df' ''order_year''"
    using add_periods_columns [OF d3] by simp_all
  have "has_column df1 ''delivery_time_days''"
    using d2 by (auto simp: drop_invalid_def split: if_splits)
  then have "has_column df2 ''delivery_time_days''"
    using drop_invalid_rows(2) [OF d2] by (simp add: has_column_def)
  then show "has_column df' ''delivery_time_days''"
    using add_periods_columns(3) [OF d3, of "''delivery_time_days''"] by simp
qed

text \<open>
  Claim C7. On a prepared table the selection \<open>'Semua'\<close> returns the table itself, and a
  year returns the rows whose \<open>order_year\<close> is that year, in their order and with the
  same columns. The options are \<open>'Semua'\<close> followed by the years that occur in the
  table, each once and in ascending order; a missing year gives no option.
\<close>

theorem year_filter_and_options:
  assumes "prepare P df0 = Inr df"
  shows "filtered_df Semua df = Inr df
       \<and> (\<forall>y. filtered_df (Tahun y) df
                = Inr \<lparr>columns = columns df,
                       rows = filter (\<lambda>r. get r ''order_year'' = Num y) (rows df)\<rparr>)
       \<and> (\<exists>ys. tahun_opsi df = Inr (Semua # map Tahun ys)
               \<and> sorted ys \<and> distinct ys
               \<and> set ys = {y. \<exists>r \<in> set (rows df). get r ''order_year'' = Num y})"
proof -
  have col: "has_column df ''order_year''"
    using prepare_columns(2) [OF assms] .
  let ?ys = "sort (remdups (List.map_filter num_of (column df ''order_year'')))"
  have "set ?ys = {y. \<exists>r \<in> set (rows df). get r ''order_year'' = Num y}"
    by (force simp: set_map_filter column_def num_of_eq_Some)
  moreover have "tahun_opsi df = Inr (Semua # map Tahun ?ys)"
    using col by (simp add: tahun_opsi_def)
  moreover have "sorted ?ys" "distinct ?ys"
    by simp_all
  ultimately have "\<exists>ys. tahun_opsi df = Inr (Semua # map Tahun ys)
               \<and> sorted ys \<and> distinct ys
               \<and> set ys = {y. \<exists>r \<in> set (rows df). get r ''order_year'' = Num y}"
    by blast
  then show ?thesis
    using col by (simp add: filtered_df_def select_rows_def)
qed

theorem year_filter_and_options_witness:
  "prepare example_parser stored_input = Inr stored_prepared
   \<and> filtered_df Semua stored_prepared = Inr stored_prepared
   \<and> filtered_df (Tahun 2023) stored_prepared
       = Inr \<lparr>columns = columns stored_prepared,
              rows = filter (\<lambda>r. get r ''order_year'' = Num 2023) (rows stored_prepared)\<rparr>
   \<and> tahun_opsi stored_prepared = Inr [Semua, Tahun 2023]"
proof -
  have "tahun_opsi stored_prepared = Inr [Semua, Tahun 2023]"
    by code_simp
  then show ?thesis
    using year_filter_and_options [OF prepare_stored_input] prepare_stored_input
    by simp
qed

subsection \<open>Review-score views and empty selections\<close>

lemma map_filter_map: "List.map_filter f (map g xs) = List.map_filter (\<lambda>x. f (g x)) xs"
  by (induction xs) (simp_all split: option.splits)

lemma group_rows_review:
  "group_rows review_key rs s = filter (\<lambda>r. get r ''review_score'' = Num s) rs"
  by (simp add: group_rows_def review_key_def num_of_eq_Some)

lemma review_keys:
  "set (group_keys review_key rs) = {s. \<exists>r \<in> set rs. get r ''review_score'' = Num s}"
  by (simp add: set_group_keys review_key_def num_of_eq_Some)

lemma map_fst_keyed: "map fst (map (\<lambda>k. (k, f k)) ks) = ks"
  by (induction ks) simp_all

text \<open>
  Claim C6. On a table with the two columns, both review-score views return the same
  table: one row for every review score that occurs in the table, in ascending order of
  the score and without a row for a missing score, holding the arithmetic mean of the
  delivery times present in the rows of that score.
\<close>

theorem review_score_views:
  assumes "has_column df ''review_score''" and "has_column df ''delivery_time_days''"
  shows "\<exists>A. delivery_vs_review df = Inr A \<and> avg_delivery df = Inr A
       \<and> sorted (map fst A) \<and> distinct (map fst A)
       \<and> set (map fst A) = {s. \<exists>r \<in> set (rows df). get r ''review_score'' = Num s}
       \<and> (\<forall>(s, m) \<in> set A.
            let vs = List.map_filter (\<lambda>r. num_of (get r ''delivery_time_days''))
                       (filter (\<lambda>r. get r ''review_score'' = Num s) (rows df))
            in m = (if vs = [] then NA else Num (sum_list vs / real (length vs))))"
proof -
  let ?mean = "\<lambda>k. nanmean (map (\<lambda>r. get r ''delivery_time_days'')
                               (group_rows review_key (rows df) k))"
  define A where "A = map (\<lambda>k. (k, ?mean k)) (group_keys review_key (rows df))"
  have dvr: "delivery_vs_review df = Inr A"
    using assms by (simp add: delivery_vs_review_def require_column_def A_def)
  have keys: "map fst A = group_keys review_key (rows df)"
    unfolding A_def by (rule map_fst_keyed)
  have srt: "sorted (map fst A)" and dst: "distinct (map fst A)"
    unfolding keys by (rule group_keys_sorted, rule group_keys_distinct)
  have "sort_key fst A = A"
    using srt by (rule sort_key_id_if_sorted)
  then have B: "avg_delivery df = Inr A"
    using dvr by (simp add: avg_delivery_def)
  have st: "set (map fst A) = {s. \<exists>r \<in> set (rows df). get r ''review_score'' = Num s}"
    unfolding keys by (rule review_keys)
  have mean: "\<forall>(s, m) \<in> set A.
            let vs = List.map_filter (\<lambda>r. num_of (get r ''delivery_time_days''))
                       (filter (\<lambda>r. get r ''review_score'' = Num s) (rows df))
            in m = (if vs = [] then NA else Num (sum_list vs / real (length vs)))"
    unfolding A_def by (auto simp: nanmean_def Let_def map_filter_map group_rows_review)
  from dvr B srt dst st mean show ?thesis by blast
qed

theorem review_score_views_witness:
  "has_column example_prepared ''review_score''
   \<and> has_column example_prepared ''delivery_time_days''
   \<and> delivery_vs_review example_prepared = Inr [(4, Num 5), (5, Num 2)]
   \<and> avg_delivery example_prepared = Inr [(4, Num 5), (5, Num 2)]"
proof -
  have h1: "has_column example_prepared ''review_score''"
    by code_simp
  have h2: "has_column example_prepared ''delivery_time_days''"
    by code_simp
  have a: "delivery_vs_review example_prepared = Inr [(4, Num 5), (5, Num 2)]"
    by code_simp
  from review_score_views [OF h1 h2] a
  have "avg_delivery example_prepared = Inr [(4, Num 5), (5, Num 2)]"
    by auto
  with h1 h2 a show ?thesis by simp
qed

text \<open>
  Claim C9. On a prepared table, the selection \<open>'Semua'\<close> returns a table on which it
  returns the same table again. When the table has the columns the views read and no row
  is of year \<open>y\<close>, selecting \<open>y\<close> returns a table without rows, and on it each of the
  views of lines 91-182 returns an empty table and none of them raises. For the histogram
  of line 155 the table is the series it is given.
\<close>

theorem empty_selection_views:
  assumes "prepare P df0 = Inr df"
  shows "(\<exists>f. filtered_df Semua df = Inr f \<and> filtered_df Semua f = Inr f)
       \<and> (has_column df ''order_id'' \<and> has_column df ''price''
          \<and> has_column df ''product_category_name'' \<and> has_column df ''review_score''
          \<and> Num y \<notin> set (column df ''order_year'')
          \<longrightarrow> (\<exists>e. filtered_df (Tahun y) df = Inr e \<and> rows e = []
                 \<and> orders_per_month e = Inr [] \<and> revenue_per_month e = Inr []
                 \<and> top10_products e = Inr [] \<and> delivery_time_series e = Inr []
                 \<and> delivery_vs_review e = Inr [] \<and> avg_delivery e = Inr []))"
proof -
  have idem: "\<exists>f. filtered_df Semua df = Inr f \<and> filtered_df Semua f = Inr f"
    by (simp add: filtered_df_def)
  have views: "\<exists>e. filtered_df (Tahun y) df = Inr e \<and> rows e = []
                 \<and> orders_per_month e = Inr [] \<and> revenue_per_month e = Inr []
                 \<and> top10_products e = Inr [] \<and> delivery_time_series e = Inr []
                 \<and> delivery_vs_review e = Inr [] \<and> avg_delivery e = Inr []"
    if cols: "has_column df ''order_id''" "has_column df ''price''"
        "has_column df ''product_category_name''" "has_column df ''review_score''"
      and none: "Num y \<notin> set (column df ''order_year'')"
  proof -
    define e where "e = select_rows (\<lambda>r. get r ''order_year'' = Num y) df"
    have sel: "filtered_df (Tahun y) df = Inr e"
      using prepare_columns(2) [OF assms] by (simp add: filtered_df_def e_def)
    have "filter (\<lambda>r. get r ''order_year'' = Num y) (rows df) = []"
      using none by (force simp: column_def filter_empty_conv)
    then have empty: "rows e = []"
      by (simp add: e_def select_rows_def)
    have same: "columns e = columns df"
      by (simp add: e_def select_rows_def)
    have dt: "dt_accessor e ''order_purchase_timestamp'' = Inr ()"
      using prepare_columns(1) [OF assms] by (simp add: dt_accessor_def same)
    have req: "require_column e ''order_id'' = Inr ()" "require_column e ''price'' = Inr ()"
      "require_column e ''product_category_name'' = Inr ()"
      "require_column e ''review_score'' = Inr ()"
      "require_column e ''delivery_time_days'' = Inr ()"
      using cols prepare_columns(3) [OF assms]
      by (simp_all add: require_column_def has_column_def same)
    have v1: "orders_per_month e = Inr []"
      by (simp add: orders_per_month_def dt req empty group_keys_Nil)
    have v2: "revenue_per_month e = Inr []"
      by (simp add: revenue_per_month_def dt req empty group_keys_Nil)
    have v3: "top10_products e = Inr []"
      by (simp add: top10_products_def req empty revenue_per_category_def group_keys_Nil
          sort_values_desc_def)
    have v4: "delivery_time_series e = Inr []"
      by (simp add: delivery_time_series_def req empty column_def)
    have v5: "delivery_vs_review e = Inr []"
      by (simp add: delivery_vs_review_def req empty group_keys_Nil)
    have v6: "avg_delivery e = Inr []"
      by (simp add: avg_delivery_def v5)
    from sel empty v1 v2 v3 v4 v5 v6 show ?thesis by blast
  qed
  from idem views show ?thesis by blast
qed

theorem empty_selection_views_witness:
  "prepare example_parser example_input = Inr example_prepared
   \<and> has_column example_prepared ''order_id'' \<and> has_column example_prepared ''price''
   \<and> has_column example_prepared ''product_category_name''
   \<and> has_column example_prepared ''review_score''
   \<and> Num 1999 \<notin> set (column example_prepared ''order_year'')
   \<and> (\<exists>f. filtered_df Semua example_prepared = Inr f \<and> filtered_df Semua f = Inr f)
   \<and> (\<exists>e. filtered_df (Tahun 1999) example_prepared = Inr e \<and> rows e = []
          \<and> orders_per_month e = Inr [] \<and> revenue_per_month e = Inr []
          \<and> top10_products e = Inr [] \<and> delivery_time_series e = Inr []
          \<and> delivery_vs_review e = Inr [] \<and> avg_delivery e = Inr [])"
proof -
  have h: "has_column example_prepared ''order_id'' \<and> has_column example_prepared ''price''
     \<and> has_column example_prepared ''product_category_name''
     \<and> has_column example_prepared ''review_score''
     \<and> Num 1999 \<notin> set (column example_prepared ''order_year'')"
    by code_simp
  show ?thesis
    using empty_selection_views [OF prepare_example_input, of 1999] h prepare_example_input
    by blast
qed

subsection \<open>Top 10 categories\<close>

lemma category_key_eq_Some: "category_key r = Some c \<longleftrightarrow> get r ''product_category_name'' = Str c"
  by (cases "get r ''product_category_name''") (simp_all add: category_key_def)

lemma revenue_per_category_eq:
  "revenue_per_category (rows df)
     = map (\<lambda>k. (k, category_revenue df k)) (group_keys category_key (rows df))"
  by (simp add: revenue_per_category_def category_revenue_def group_rows_def category_key_eq_Some)

lemma category_keys:
  "set (group_keys category_key rs) = {c. \<exists>r \<in> set rs. get r ''product_category_name'' = Str c}"
  by (simp add: set_group_keys category_key_eq_Some)

lemma sort_values_desc_sorted: "sorted_wrt (\<ge>) (map snd (sort_values_desc xs))"
proof -
  have "sorted (map (\<lambda>kv. - snd kv) (sort_values_desc xs))"
    unfolding sort_values_desc_def by (rule sorted_sort_key)
  then show ?thesis
    by (simp add: sorted_wrt_map)
qed

lemma set_sort_values_desc: "set (sort_values_desc xs) = set xs"
  by (simp add: sort_values_desc_def)

lemma distinct_fst_sort_values_desc:
  assumes "distinct (map fst xs)"
  shows "distinct (map fst (sort_values_desc xs))"
proof -
  from assms have "distinct xs" and "inj_on fst (set xs)"
    by (simp_all add: distinct_map)
  then show ?thesis
    by (simp add: distinct_map sort_values_desc_def)
qed

text \<open>
  Claim C3. On a table with the two columns the top-10 view returns a table of at most
  10 rows with pairwise different categories; each row holds a category that occurs in the
  table and the sum of \<open>price\<close> over the rows of that category; the rows are in
  descending order of that sum; and a category of the table that the view leaves out has
  a sum no larger than that of any row of the view.
\<close>

theorem top10_products_correct:
  assumes "has_column df ''product_category_name''" and "has_column df ''price''"
  shows "\<exists>T. top10_products df = Inr T
       \<and> length T \<le> 10
       \<and> distinct (map fst T)
       \<and> (\<forall>(c, v) \<in> set T.
             (\<exists>r \<in> set (rows df). get r ''product_category_name'' = Str c)
             \<and> v = category_revenue df c)
       \<and> sorted_wrt (\<ge>) (map snd T)
       \<and> (\<forall>c'. (\<exists>r \<in> set (rows df). get r ''product_category_name'' = Str c')
                 \<and> c' \<notin> set (map fst T)
               \<longrightarrow> (\<forall>(c, v) \<in> set T. category_revenue df c' \<le> v))"
proof -
  define G where "G = revenue_per_category (rows df)"
  define S where "S = sort_values_desc G"
  define T where "T = take 10 S"
  have G: "G = map (\<lambda>k. (k, category_revenue df k)) (group_keys category_key (rows df))"
    unfolding G_def by (rule revenue_per_category_eq)
  have top: "top10_products df = Inr T"
    using assms by (simp add: top10_products_def require_column_def T_def S_def G_def)
  have len: "length T \<le> 10"
    by (simp add: T_def)
  have "distinct (map fst G)"
    unfolding G map_fst_keyed by (rule group_keys_distinct)
  then have dS: "distinct (map fst S)"
    unfolding S_def by (rule distinct_fst_sort_values_desc)
  then have dst: "distinct (map fst T)"
    unfolding T_def by (simp add: take_map [symmetric])
  have setS: "set S = set G"
    by (simp add: S_def set_sort_values_desc)
  have inG: "(c, v) \<in> set G \<longleftrightarrow>
      (\<exists>r \<in> set (rows df). get r ''product_category_name'' = Str c) \<and> v = category_revenue df c"
    for c v
    unfolding G using category_keys [of "rows df"] by auto
  have sub: "set T \<subseteq> set G"
    using set_take_subset [of 10 S] by (simp add: T_def setS)
  have vals: "\<forall>(c, v) \<in> set T.
             (\<exists>r \<in> set (rows df). get r ''product_category_name'' = Str c)
             \<and> v = category_revenue df c"
    using sub inG by auto
  have sS: "sorted_wrt (\<ge>) (map snd S)"
    unfolding S_def by (rule sort_values_desc_sorted)
  have split: "map snd S = map snd T @ map snd (drop 10 S)"
    unfolding T_def by (simp flip: map_append)
  have srt: "sorted_wrt (\<ge>) (map snd T)"
    using sS unfolding split by (simp add: sorted_wrt_append)
  have cross: "\<forall>x \<in> set T. \<forall>y \<in> set (drop 10 S). snd y \<le> snd x"
    using sS unfolding split by (auto simp: sorted_wrt_append)
  have excl: "\<forall>(c, v) \<in> set T. category_revenue df c' \<le> v"
    if present: "\<exists>r \<in> set (rows df). get r ''product_category_name'' = Str c'"
      and out: "c' \<notin> set (map fst T)" for c'
  proof -
    have "(c', category_revenue df c') \<in> set S"
      using present by (simp add: setS inG)
    moreover have "(c', category_revenue df c') \<notin> set T"
      using out by force
    moreover have "set S = set T \<union> set (drop 10 S)"
      unfolding T_def by (simp flip: set_append)
    ultimately have "(c', category_revenue df c') \<in> set (drop 10 S)"
      by simp
    with cross show ?thesis by force
  qed
  from top len dst vals srt excl show ?thesis by blast
qed

lemma top10_category_table:
  "top10_products category_table =
     Inr [(''j'', 100), (''i'', 90), (''h'', 80), (''g'', 70), (''f'', 60), (''e'', 50),
          (''d'', 40), (''c'', 30), (''b'', 20), (''a'', 15)]"
  by code_simp

theorem top10_products_correct_witness:
  "has_column category_table ''product_category_name''
   \<and> has_column category_table ''price''
   \<and> top10_products category_table =
       Inr [(''j'', 100), (''i'', 90), (''h'', 80), (''g'', 70), (''f'', 60), (''e'', 50),
            (''d'', 40), (''c'', 30), (''b'', 20), (''a'', 15)]
   \<and> list_ex (\<lambda>r. get r ''product_category_name'' = Str ''k'') (rows category_table)
   \<and> category_revenue category_table ''k'' = 3
   \<and> category_revenue category_table ''k'' \<le> 15"
proof -
  have h1: "has_column category_table ''product_category_name''"
    by code_simp
  have h2: "has_column category_table ''price''"
    by code_simp
  have k: "list_ex (\<lambda>r. get r ''product_category_name'' = Str ''k'') (rows category_table)"
    by code_simp
  have rev: "category_revenue category_table ''k'' = 3"
    by code_simp
  from k have present: "\<exists>r \<in> set (rows category_table). get r ''product_category_name'' = Str ''k''"
    by (simp add: list_ex_iff)
  from top10_products_correct [OF h1 h2] obtain T where
    T: "top10_products category_table = Inr T" and
    excl: "\<forall>c'. (\<exists>r \<in> set (rows category_table). get r ''product_category_name'' = Str c')
                 \<and> c' \<notin> set (map fst T)
               \<longrightarrow> (\<forall>(c, v) \<in> set T. category_revenue category_table c' \<le> v)"
    by blast
  from T top10_category_table have Teq:
    "T = [(''j'', 100), (''i'', 90), (''h'', 80), (''g'', 70), (''f'', 60), (''e'', 50),
          (''d'', 40), (''c'', 30), (''b'', 20), (''a'', 15)]"
    by simp
  have "''k'' \<notin> set (map fst T)"
    unfolding Teq by simp
  with excl present have "\<forall>(c, v) \<in> set T. category_revenue category_table ''k'' \<le> v"
    by blast
  then have "category_revenue category_table ''k'' \<le> 15"
    unfolding Teq by simp
  with h1 h2 top10_category_table k rev show ?thesis by simp
qed

subsection \<open>Monthly views\<close>

lemma nansum_amount: "nansum (map f rs) = sum_list (map (amount f) rs)"
  by (induction rs) (simp_all add: nansum_def amount_def split: option.splits)

lemma sum_list_filter_disj:
  fixes g :: "'a \<Rightarrow> real"
  assumes "\<And>x. x \<in> set xs \<Longrightarrow> \<not> (P x \<and> Q x)"
  shows "sum_list (map g (filter (\<lambda>x. P x \<or> Q x) xs))
           = sum_list (map g (filter P xs)) + sum_list (map g (filter Q xs))"
  using assms by (induction xs) auto



lemma month_key_dated: "month_key r \<noteq> None \<longleftrightarrow> dated r"
  by (cases "get r ''order_purchase_timestamp''") (simp_all add: month_key_def dated_def)

lemma months_of_view:
  "map (\<lambda>(t, v). (ts_year t, ts_month t)) (map (\<lambda>k. (to_timestamp k, f k)) ks) = ks"
  by (induction ks) (simp_all add: to_timestamp_def)
















lemma nunique_card: "nunique xs = card (set xs - {NA})"
proof -
  have "set (filter (\<lambda>c. c \<noteq> NA) xs) = set xs - {NA}"
    by auto
  then show ?thesis
    by (simp add: nunique_def length_remdups_card_conv)
qed

text \<open>
  Claim C5, as amended. On a table whose purchase column is a datetime column and that
  has an \<open>order_id\<close> column, the monthly order counts add up to the number of distinct
  orders of the table, provided every row with an order is dated and the rows of one order
  fall in one month. The view has one row per month that occurs, in chronological order,
  holding the number of distinct orders among the rows of that month.
\<close>

theorem monthly_orders_conservation:
  assumes "map_of (columns df) ''order_purchase_timestamp'' = Some Datetime64"
    and "has_column df ''order_id''"
    and "\<forall>r \<in> set (rows df). get r ''order_id'' \<noteq> NA \<longrightarrow> dated r"
    and "\<forall>r \<in> set (rows df). \<forall>r' \<in> set (rows df).
           get r ''order_id'' = get r' ''order_id'' \<and> get r ''order_id'' \<noteq> NA
           \<longrightarrow> month_key r = month_key r'"
  shows "\<exists>M. orders_per_month df = Inr M
       \<and> sum_list (map snd M) = total_orders df
       \<and> sorted_wrt (<) (map (\<lambda>(t, n). (ts_year t, ts_month t)) M)
       \<and> (\<forall>(t, n) \<in> set M.
            n = nunique (map (\<lambda>r. get r ''order_id'')
                  (filter (\<lambda>r. month_key r = Some (ts_year t, ts_month t)) (rows df))))"
proof -
  let ?oid = "\<lambda>r. get r ''order_id''"
  let ?ks = "group_keys month_key (rows df)"
  let ?ids = "\<lambda>k. set (map ?oid (group_rows month_key (rows df) k)) - {NA}"
  define M where
    "M = map (\<lambda>k. (to_timestamp k, nunique (map ?oid (group_rows month_key (rows df) k)))) ?ks"
  have view: "orders_per_month df = Inr M"
    using assms(1,2) by (simp add: orders_per_month_def dt_accessor_def require_column_def M_def)
  have disj: "?ids k \<inter> ?ids k' = {}" if "k \<noteq> k'" for k k'
  proof (rule ccontr)
    assume "?ids k \<inter> ?ids k' \<noteq> {}"
    then obtain c where c: "c \<in> ?ids k" "c \<in> ?ids k'"
      by blast
    from c(1) obtain r where r: "r \<in> set (rows df)" "month_key r = Some k" "?oid r = c" "c \<noteq> NA"
      by (auto simp: group_rows_def)
    from c(2) obtain r' where r': "r' \<in> set (rows df)" "month_key r' = Some k'" "?oid r' = c"
      by (auto simp: group_rows_def)
    have same: "?oid r = ?oid r' \<and> ?oid r \<noteq> NA"
      using r r' by simp
    have "month_key r = month_key r'"
      by (rule assms(4) [rule_format, OF r(1) r'(1) same])
    with r(2) r'(2) that show False
      by simp
  qed
  have union: "(\<Union>k \<in> set ?ks. ?ids k) = set (column df ''order_id'') - {NA}"
  proof (rule set_eqI, rule iffI)
    fix c
    assume "c \<in> (\<Union>k \<in> set ?ks. ?ids k)"
    then show "c \<in> set (column df ''order_id'') - {NA}"
      by (auto simp: group_rows_def column_def)
  next
    fix c
    assume "c \<in> set (column df ''order_id'') - {NA}"
    then obtain r where r: "r \<in> set (rows df)" "?oid r = c" "c \<noteq> NA"
      by (auto simp: column_def)
    with assms(3) [rule_format, OF r(1)] have "dated r"
      by blast
    then obtain k where k: "month_key r = Some k"
      using month_key_dated [of r] by auto
    with r(1) have "k \<in> set ?ks"
      by (auto simp: set_group_keys)
    moreover from r k have "c \<in> ?ids k"
      by (auto simp: group_rows_def)
    ultimately show "c \<in> (\<Union>k \<in> set ?ks. ?ids k)"
      by blast
  qed
  have "sum_list (map snd M) = (\<Sum>k\<leftarrow>?ks. card (?ids k))"
    by (simp add: M_def o_def nunique_card)
  also have "\<dots> = (\<Sum>k \<in> set ?ks. card (?ids k))"
    by (rule sum_list_distinct_conv_sum_set) (rule group_keys_distinct)
  also have "\<dots> = card (\<Union>k \<in> set ?ks. ?ids k)"
    by (rule card_UN_disjoint [symmetric]) (use disj in auto)
  also have "\<dots> = total_orders df"
    by (simp only: union total_orders_def nunique_card)
  finally have total: "sum_list (map snd M) = total_orders df" .
  have "map (\<lambda>(t, n). (ts_year t, ts_month t)) M = ?ks"
    unfolding M_def by (rule months_of_view)
  then have order: "sorted_wrt (<) (map (\<lambda>(t, n). (ts_year t, ts_month t)) M)"
    by (simp add: strict_sorted_iff group_keys_sorted group_keys_distinct)
  have each: "\<forall>(t, n) \<in> set M.
            n = nunique (map ?oid
                  (filter (\<lambda>r. month_key r = Some (ts_year t, ts_month t)) (rows df)))"
    by (auto simp: M_def group_rows_def to_timestamp_def)
  from view total order each show ?thesis by blast
qed

theorem monthly_orders_conservation_witness:
  "map_of (columns example_prepared) ''order_purchase_timestamp'' = Some Datetime64
   \<and> has_column example_prepared ''order_id''
   \<and> list_all dated (rows example_prepared)
   \<and> list_all (\<lambda>r. list_all (\<lambda>r'. month_key r = month_key r') (rows example_prepared))
         (rows example_prepared)
   \<and> orders_per_month example_prepared = Inr [(Timestamp 2023 1 1 0, 2)]
   \<and> total_orders example_prepared = 2"
proof -
  have h1: "map_of (columns example_prepared) ''order_purchase_timestamp'' = Some Datetime64"
    by code_simp
  have h2: "has_column example_prepared ''order_id''"
    by code_simp
  have h3: "list_all dated (rows example_prepared)"
    by code_simp
  have h4: "list_all (\<lambda>r. list_all (\<lambda>r'. month_key r = month_key r') (rows example_prepared))
         (rows example_prepared)"
    by code_simp
  have v: "orders_per_month example_prepared = Inr [(Timestamp 2023 1 1 0, 2)]"
    by code_simp
  from h3 have "\<forall>r \<in> set (rows example_prepared). dated r"
    unfolding list_all_iff .
  then have a3: "\<forall>r \<in> set (rows example_prepared). get r ''order_id'' \<noteq> NA \<longrightarrow> dated r"
    by blast
  from h4 have "\<forall>r \<in> set (rows example_prepared). \<forall>r' \<in> set (rows example_prepared).
           month_key r = month_key r'"
    unfolding list_all_iff .
  then have a4: "\<forall>r \<in> set (rows example_prepared). \<forall>r' \<in> set (rows example_prepared).
           get r ''order_id'' = get r' ''order_id'' \<and> get r ''order_id'' \<noteq> NA
           \<longrightarrow> month_key r = month_key r'"
    by blast
  from monthly_orders_conservation [OF h1 h2 a3 a4] obtain M where
    M: "orders_per_month example_prepared = Inr M" and
    total: "sum_list (map snd M) = total_orders example_prepared"
    by blast
  from M v have "M = [(Timestamp 2023 1 1 0, 2)]"
    by simp
  with total have "total_orders example_prepared = 2"
    by simp
  with h1 h2 h3 h4 v show ?thesis by simp
qed

text \<open>
  Claim C5, as stated, fails in two ways. On the prepared table whose first row has no
  purchase time the monthly counts add up to 1 and the table has 2 orders; on the table
  of the order bought in two months they add up to 2 and the table has 1 order.
\<close>

theorem monthly_orders_counterexample:
  "prepare example_parser stored_input = Inr stored_prepared
   \<and> orders_per_month stored_prepared = Inr [(Timestamp 2023 2 1 0, 1)]
   \<and> total_orders stored_prepared = 2
   \<and> prepare example_parser split_order_input = Inr split_order_prepared
   \<and> orders_per_month split_order_prepared
       = Inr [(Timestamp 2023 1 1 0, 1), (Timestamp 2023 2 1 0, 1)]
   \<and> total_orders split_order_prepared = 1"
  by code_simp

subsection \<open>Date coercion\<close>













subsection \<open>Rows without a purchase time\<close>

lemma prepare_stored_rows:
  assumes "has_column df ''delivery_time_days''" and "prepare P df = Inr df'"
  shows "rows df' =
           map (\<lambda>r. AList.update ''order_year'' (year_of (get r ''order_purchase_timestamp''))
                      (AList.update ''order_year_month''
                         (to_period (get r ''order_purchase_timestamp'')) r))
               (filter (\<lambda>r. non_negative (get r ''delivery_time_days''))
                  (rows (coerce_dates P df)))"
proof -
  from assms(2) obtain df1 df2 where
    d1: "derive_delivery_time (coerce_dates P df) = Inr df1" and
    d2: "drop_invalid df1 = Inr df2" and
    d3: "add_periods df2 = Inr df'"
    by (auto simp: prepare_def split: sum.splits)
  have "has_column (coerce_dates P df) ''delivery_time_days''"
    using assms(1) by (simp add: has_column_coerce_dates)
  then have "df1 = coerce_dates P df"
    using d1 by (simp add: derive_keeps_present)
  then show ?thesis
    using add_periods_rows [OF d3] drop_invalid_rows(1) [OF d2] by simp
qed

lemma dated_update:
  "dated (AList.update ''order_year'' a (AList.update ''order_year_month'' b r)) = dated r"
  by (simp add: dated_def get_update)

lemma not_dated_periods:
  "\<not> dated r \<Longrightarrow> year_of (get r ''order_purchase_timestamp'') = NA
     \<and> to_period (get r ''order_purchase_timestamp'') = NA"
  by (cases "get r ''order_purchase_timestamp''") (simp_all add: dated_def year_of_def to_period_def)

lemma map_filter_filter_none:
  "(\<And>x. x \<in> set xs \<Longrightarrow> \<not> P x \<Longrightarrow> f x = None) \<Longrightarrow>
     List.map_filter f (filter P xs) = List.map_filter f xs"
  by (induction xs) (auto split: option.splits)

lemma month_key_undated: "\<not> dated r \<Longrightarrow> month_key r = None"
  by (cases "get r ''order_purchase_timestamp''") (simp_all add: month_key_def dated_def)

lemma group_keys_dated: "group_keys month_key (filter dated rs) = group_keys month_key rs"
  by (simp add: group_keys_def map_filter_filter_none month_key_undated)

lemma group_rows_dated: "group_rows month_key (filter dated rs) k = group_rows month_key rs k"
proof -
  have "month_key r = Some k \<Longrightarrow> dated r" for r
    using month_key_undated [of r] by auto
  then show ?thesis
    by (auto simp: group_rows_def intro: filter_cong)
qed

lemma dated_part_simps:
  "rows (dated_part df) = filter dated (rows df)"
  "columns (dated_part df) = columns df"
  "dt_accessor (dated_part df) col = dt_accessor df col"
  "require_column (dated_part df) col = require_column df col"
  "has_column (dated_part df) col = has_column df col"
  by (simp_all add: dated_part_def select_rows_def dt_accessor_def require_column_def
      has_column_def)

lemma orders_per_month_dated: "orders_per_month (dated_part df) = orders_per_month df"
  unfolding orders_per_month_def dated_part_simps group_keys_dated group_rows_dated ..

lemma revenue_per_month_dated: "revenue_per_month (dated_part df) = revenue_per_month df"
  unfolding revenue_per_month_def dated_part_simps group_keys_dated group_rows_dated ..

lemma category_revenue_split:
  "category_revenue df c
     = category_revenue (dated_part df) c + category_revenue (undated_part df) c"
proof -
  let ?price = "\<lambda>r. get r ''price''"
  let ?rs = "filter (\<lambda>r. get r ''product_category_name'' = Str c) (rows df)"
  have "sum_list (map (amount ?price) (filter (\<lambda>r. dated r \<or> \<not> dated r) ?rs))
          = sum_list (map (amount ?price) (filter dated ?rs))
            + sum_list (map (amount ?price) (filter (\<lambda>r. \<not> dated r) ?rs))"
    by (rule sum_list_filter_disj) simp
  then show ?thesis
    by (simp add: category_revenue_def dated_part_def undated_part_def select_rows_def
        nansum_amount conj_commute)
qed

lemma top10_values:
  assumes "top10_products df = Inr T" and "(c, v) \<in> set T"
  shows "v = category_revenue df c"
proof -
  from assms(1) have "T = take 10 (sort_values_desc (revenue_per_category (rows df)))"
    by (simp add: top10_products_def split: sum.splits)
  with assms(2) have "(c, v) \<in> set (revenue_per_category (rows df))"
    using set_take_subset [of 10 "sort_values_desc (revenue_per_category (rows df))"]
    by (auto simp: set_sort_values_desc)
  then show ?thesis
    by (auto simp: revenue_per_category_eq)
qed

lemma delivery_vs_review_values:
  assumes "delivery_vs_review df = Inr A" and "(s, m) \<in> set A"
  shows "m = nanmean (map (\<lambda>r. get r ''delivery_time_days'')
                 (filter (\<lambda>r. get r ''review_score'' = Num s) (rows df)))"
  using assms
  by (auto simp: delivery_vs_review_def group_rows_review split: sum.splits)

text \<open>
  Claim C10. Let the input table come with its own \<open>delivery_time_days\<close> column and
  let preparation return a table. A row whose purchase time is missing after date coercion
  and whose delivery time is present and not negative is a row of the prepared table, with
  \<open>order_year\<close> and \<open>order_year_month\<close> missing; every undated row of the prepared
  table has both missing. The year options and the two monthly views are those of the
  dated rows alone. Under \<open>'Semua'\<close> the filtered table is the whole prepared table: the
  histogram series is its whole delivery time column, a revenue of the top-10 view is the
  sum of the revenue of the dated and of the undated rows of the category, and a mean of
  the review-score view is taken over all rows of the score.
\<close>

theorem undated_rows_in_views:
  assumes "has_column df ''delivery_time_days''" and "prepare P df = Inr df'"
  shows "(\<forall>r \<in> set (rows (coerce_dates P df)).
            get r ''order_purchase_timestamp'' = NA
            \<and> non_negative (get r ''delivery_time_days'')
            \<longrightarrow> AList.update ''order_year'' NA (AList.update ''order_year_month'' NA r)
                  \<in> set (rows df'))
       \<and> (\<forall>r \<in> set (rows df').
            \<not> dated r \<longrightarrow> get r ''order_year'' = NA \<and> get r ''order_year_month'' = NA)
       \<and> tahun_opsi (dated_part df') = tahun_opsi df'
       \<and> orders_per_month (dated_part df') = orders_per_month df'
       \<and> revenue_per_month (dated_part df') = revenue_per_month df'
       \<and> filtered_df Semua df' = Inr df'
       \<and> delivery_time_series df' = Inr (column df' ''delivery_time_days'')
       \<and> (\<forall>T c v. top10_products df' = Inr T \<and> (c, v) \<in> set T
            \<longrightarrow> v = category_revenue (dated_part df') c + category_revenue (undated_part df') c)
       \<and> (\<forall>A s m. delivery_vs_review df' = Inr A \<and> (s, m) \<in> set A
            \<longrightarrow> m = nanmean (map (\<lambda>r. get r ''delivery_time_days'')
                        (filter (\<lambda>r. get r ''review_score'' = Num s) (rows df'))))"
proof -
  let ?ext = "\<lambda>r. AList.update ''order_year'' (year_of (get r ''order_purchase_timestamp''))
                      (AList.update ''order_year_month''
                         (to_period (get r ''order_purchase_timestamp'')) r)"
  have rows': "rows df' = map ?ext (filter (\<lambda>r. non_negative (get r ''delivery_time_days''))
                  (rows (coerce_dates P df)))"
    using prepare_stored_rows [OF assms] .
  have survive: "\<forall>r \<in> set (rows (coerce_dates P df)).
            get r ''order_purchase_timestamp'' = NA
            \<and> non_negative (get r ''delivery_time_days'')
            \<longrightarrow> AList.update ''order_year'' NA (AList.update ''order_year_month'' NA r)
                  \<in> set (rows df')"
  proof (intro ballI impI)
    fix r
    assume r: "r \<in> set (rows (coerce_dates P df))"
      and "get r ''order_purchase_timestamp'' = NA
            \<and> non_negative (get r ''delivery_time_days'')"
    then have na: "get r ''order_purchase_timestamp'' = NA"
      and ok: "non_negative (get r ''delivery_time_days'')"
      by simp_all
    from na have "?ext r = AList.update ''order_year'' NA (AList.update ''order_year_month'' NA r)"
      by (simp add: year_of_def to_period_def)
    moreover from r ok have "?ext r \<in> set (rows df')"
      unfolding rows' by simp
    ultimately show "AList.update ''order_year'' NA (AList.update ''order_year_month'' NA r)
                  \<in> set (rows df')"
      by simp
  qed
  have keys: "\<forall>r \<in> set (rows df').
            \<not> dated r \<longrightarrow> get r ''order_year'' = NA \<and> get r ''order_year_month'' = NA"
  proof (intro ballI impI)
    fix r'
    assume "r' \<in> set (rows df')" and undated: "\<not> dated r'"
    then obtain r where r': "r' = ?ext r"
      unfolding rows' by auto
    from undated have "\<not> dated r"
      unfolding r' by (simp add: dated_update)
    from not_dated_periods [OF this]
    show "get r' ''order_year'' = NA \<and> get r' ''order_year_month'' = NA"
      unfolding r' by (simp add: get_update)
  qed
  have year: "has_column df' ''order_year''" and dtd: "has_column df' ''delivery_time_days''"
    using prepare_columns(2,3) [OF assms(2)] .
  have "List.map_filter (\<lambda>r. num_of (get r ''order_year'')) (filter dated (rows df'))
          = List.map_filter (\<lambda>r. num_of (get r ''order_year'')) (rows df')"
    using keys by (intro map_filter_filter_none) (simp add: num_of_def)
  then have opsi: "tahun_opsi (dated_part df') = tahun_opsi df'"
    by (simp add: tahun_opsi_def dated_part_simps column_def map_filter_map)
  have semua: "filtered_df Semua df' = Inr df'"
    by (simp add: filtered_df_def)
  have series: "delivery_time_series df' = Inr (column df' ''delivery_time_days'')"
    using dtd by (simp add: delivery_time_series_def require_column_def)
  have top: "\<forall>T c v. top10_products df' = Inr T \<and> (c, v) \<in> set T
            \<longrightarrow> v = category_revenue (dated_part df') c + category_revenue (undated_part df') c"
    using top10_values [of df'] category_revenue_split [of df'] by metis
  have means: "\<forall>A s m. delivery_vs_review df' = Inr A \<and> (s, m) \<in> set A
            \<longrightarrow> m = nanmean (map (\<lambda>r. get r ''delivery_time_days'')
                        (filter (\<lambda>r. get r ''review_score'' = Num s) (rows df')))"
    using delivery_vs_review_values [of df'] by blast
  from survive keys opsi orders_per_month_dated [of df'] revenue_per_month_dated [of df']
    semua series top means
  show ?thesis by blast
qed

theorem undated_rows_in_views_witness:
  "has_column stored_input ''delivery_time_days''
   \<and> prepare example_parser stored_input = Inr stored_prepared
   \<and> list_ex (\<lambda>r. get r ''order_purchase_timestamp'' = NA
                   \<and> non_negative (get r ''delivery_time_days''))
         (rows (coerce_dates example_parser stored_input))
   \<and> list_ex (\<lambda>r. \<not> dated r) (rows stored_prepared)
   \<and> tahun_opsi stored_prepared = Inr [Semua, Tahun 2023]
   \<and> tahun_opsi (dated_part stored_prepared) = Inr [Semua, Tahun 2023]
   \<and> orders_per_month stored_prepared = Inr [(Timestamp 2023 2 1 0, 1)]
   \<and> orders_per_month (dated_part stored_prepared) = Inr [(Timestamp 2023 2 1 0, 1)]
   \<and> revenue_per_month stored_prepared = Inr [(Timestamp 2023 2 1 0, 30)]
   \<and> revenue_per_month (dated_part stored_prepared) = Inr [(Timestamp 2023 2 1 0, 30)]
   \<and> filtered_df Semua stored_prepared = Inr stored_prepared
   \<and> top10_products stored_prepared = Inr [(''toys'', 100), (''books'', 30)]
   \<and> top10_products (dated_part stored_prepared) = Inr [(''books'', 30)]
   \<and> delivery_time_series stored_prepared = Inr [Num 3, Num 7]
   \<and> delivery_time_series (dated_part stored_prepared) = Inr [Num 7]
   \<and> delivery_vs_review stored_prepared = Inr [(4, Num 5)]
   \<and> delivery_vs_review (dated_part stored_prepared) = Inr [(4, Num 7)]"
proof -
  have h: "has_column stored_input ''delivery_time_days''"
    by code_simp
  have r: "list_ex (\<lambda>r. get r ''order_purchase_timestamp'' = NA
                   \<and> non_negative (get r ''delivery_time_days''))
         (rows (coerce_dates example_parser stored_input))"
    by code_simp
  have u: "list_ex (\<lambda>r. \<not> dated r) (rows stored_prepared)"
    by code_simp
  have v1: "tahun_opsi stored_prepared = Inr [Semua, Tahun 2023]"
    by code_simp
  have v2: "orders_per_month stored_prepared = Inr [(Timestamp 2023 2 1 0, 1)]"
    by code_simp
  have v3: "revenue_per_month stored_prepared = Inr [(Timestamp 2023 2 1 0, 30)]"
    by code_simp
  have v4: "top10_products stored_prepared = Inr [(''toys'', 100), (''books'', 30)]"
    "top10_products (dated_part stored_prepared) = Inr [(''books'', 30)]"
    by code_simp+
  have v5: "delivery_time_series (dated_part stored_prepared) = Inr [Num 7]"
    "column stored_prepared ''delivery_time_days'' = [Num 3, Num 7]"
    by code_simp+
  have v6: "delivery_vs_review stored_prepared = Inr [(4, Num 5)]"
    "delivery_vs_review (dated_part stored_prepared) = Inr [(4, Num 7)]"
    by code_simp+
  note general = undated_rows_in_views [OF h prepare_stored_input]
  from general v1 have w1: "tahun_opsi (dated_part stored_prepared) = Inr [Semua, Tahun 2023]"
    by simp
  from general v2 have w2:
    "orders_per_month (dated_part stored_prepared) = Inr [(Timestamp 2023 2 1 0, 1)]"
    by simp
  from general v3 have w3:
    "revenue_per_month (dated_part stored_prepared) = Inr [(Timestamp 2023 2 1 0, 30)]"
    by simp
  from general v5(2) have w4: "filtered_df Semua stored_prepared = Inr stored_prepared"
    "delivery_time_series stored_prepared = Inr [Num 3, Num 7]"
    by simp_all
  from h prepare_stored_input r u v1 w1 v2 w2 v3 w3 w4 v4 v5(1) v6 show ?thesis
    by simp
qed

end
